theory Spec2Isabelle
  imports Complex_Main "HOL-Library.Multiset" "HOL-Library.Log_Nat"
begin

section \<open>JavaScript numbers and strings\<close>

text \<open>
  The controller classifies a test reading with the JavaScript expressions
  \<^verbatim>\<open>Number(s)\<close>, \<^verbatim>\<open>s.split('/')\<close>, array destructuring and the relational
  operators. A Number is an IEEE binary64 value: not-a-number, an infinity, or a finite
  rational that binary64 represents. The two zeros compare equal and are not told apart here.
  A string is a list of code units below 256.
\<close>

datatype jsnum = NaN | NegInf | Fin rat | PosInf

datatype jsval = Undefined | Num jsnum

fun ToNumber :: "jsval \<Rightarrow> jsnum" where
  "ToNumber Undefined = NaN"
| "ToNumber (Num x) = x"

text \<open>\<^verbatim>\<open>Number::lessThan(x, y)\<close> of ECMAScript: undefined (here \<open>None\<close>) when an operand is NaN.\<close>

fun lessThan_num :: "jsnum \<Rightarrow> jsnum \<Rightarrow> bool option" where
  "lessThan_num NaN y = None"
| "lessThan_num x NaN = None"
| "lessThan_num PosInf y = Some False"
| "lessThan_num x PosInf = Some True"
| "lessThan_num x NegInf = Some False"
| "lessThan_num NegInf y = Some True"
| "lessThan_num (Fin a) (Fin b) = Some (a < b)"

text \<open>The operators \<^verbatim>\<open>a < b\<close> and \<^verbatim>\<open>a > b\<close>: an undefined comparison is false.\<close>

definition js_lt :: "jsval \<Rightarrow> jsval \<Rightarrow> bool" where
  "js_lt a b = (case lessThan_num (ToNumber a) (ToNumber b) of None \<Rightarrow> False | Some r \<Rightarrow> r)"

definition js_gt :: "jsval \<Rightarrow> jsval \<Rightarrow> bool" where
  "js_gt a b = (case lessThan_num (ToNumber b) (ToNumber a) of None \<Rightarrow> False | Some r \<Rightarrow> r)"

subsection \<open>Rounding a rational to binary64\<close>

definition pow2 :: "int \<Rightarrow> rat" where
  "pow2 e = (if 0 \<le> e then 2 ^ nat e else 1 / 2 ^ nat (- e))"

text \<open>The exponent \<open>e\<close> with \<open>2^e \<le> q < 2^(e+1)\<close>, for a positive rational.\<close>

definition ilog2 :: "rat \<Rightarrow> int" where
  "ilog2 q = (let (a, b) = quotient_of q; e0 = bitlen a - bitlen b
              in if pow2 e0 \<le> q then e0 else e0 - 1)"

definition roundHalfEven :: "rat \<Rightarrow> int" where
  "roundHalfEven r = (let n = \<lfloor>r\<rfloor>; f = r - of_int n
                      in if f < 1 / 2 then n
                         else if 1 / 2 < f then n + 1
                         else if even n then n else n + 1)"

definition roundToDouble :: "rat \<Rightarrow> jsnum" where
  "roundToDouble q =
     (if q = 0 then Fin 0
      else let m = \<bar>q\<bar>;
               e = max (ilog2 m) (- 1022);
               ulp = pow2 (e - 52);
               r = of_int (roundHalfEven (m / ulp)) * ulp
           in if pow2 1024 \<le> r then (if 0 < q then PosInf else NegInf)
              else Fin (if 0 < q then r else - r))"

subsection \<open>\<^verbatim>\<open>Number(string)\<close>: StringToNumber\<close>

definition isStrWhiteSpaceChar :: "char \<Rightarrow> bool" where
  "isStrWhiteSpaceChar c = ((of_char c :: nat) \<in> {9, 10, 11, 12, 13, 32, 160})"

definition trimString :: "string \<Rightarrow> string" where
  "trimString s = rev (dropWhile isStrWhiteSpaceChar (rev (dropWhile isStrWhiteSpaceChar s)))"

definition digitValue :: "char \<Rightarrow> nat option" where
  "digitValue c =
     (let n = (of_char c :: nat)
      in if 48 \<le> n \<and> n \<le> 57 then Some (n - 48)
         else if 97 \<le> n \<and> n \<le> 102 then Some (n - 87)
         else if 65 \<le> n \<and> n \<le> 70 then Some (n - 55)
         else None)"

definition isDigitOf :: "nat \<Rightarrow> char \<Rightarrow> bool" where
  "isDigitOf radix c = (case digitValue c of None \<Rightarrow> False | Some d \<Rightarrow> d < radix)"

definition digitsValue :: "nat \<Rightarrow> string \<Rightarrow> int" where
  "digitsValue radix ds =
     foldl (\<lambda>n c. int radix * n + (case digitValue c of None \<Rightarrow> 0 | Some d \<Rightarrow> int d)) 0 ds"

text \<open>\<open>ExponentPart\<close>: nothing, or \<^verbatim>\<open>e\<close>/\<^verbatim>\<open>E\<close>, an optional sign and decimal digits.\<close>

definition exponentPart :: "string \<Rightarrow> int option" where
  "exponentPart s =
     (case s of
        [] \<Rightarrow> Some 0
      | c # r \<Rightarrow>
          if c = CHR ''e'' \<or> c = CHR ''E'' then
            (let (neg, ds) = (case r of
                                [] \<Rightarrow> (False, [])
                              | d # r' \<Rightarrow> if d = CHR ''-'' then (True, r')
                                          else if d = CHR ''+'' then (False, r')
                                          else (False, r))
             in if ds \<noteq> [] \<and> list_all (isDigitOf 10) ds
                then Some (if neg then - digitsValue 10 ds else digitsValue 10 ds)
                else None)
          else None)"

text \<open>\<open>StrUnsignedDecimalLiteral\<close>; NaN when the text is not one.\<close>

definition strUnsignedDecimalLiteral :: "string \<Rightarrow> jsnum" where
  "strUnsignedDecimalLiteral s =
     (if s = ''Infinity'' then PosInf
      else let ip = takeWhile (isDigitOf 10) s;
               r1 = dropWhile (isDigitOf 10) s;
               (fp, r2) = (case r1 of
                             [] \<Rightarrow> ([], [])
                           | c # r \<Rightarrow> if c = CHR ''.''
                                       then (takeWhile (isDigitOf 10) r, dropWhile (isDigitOf 10) r)
                                       else ([], r1))
           in if ip = [] \<and> fp = [] then NaN
              else (case exponentPart r2 of
                      None \<Rightarrow> NaN
                    | Some e \<Rightarrow>
                        roundToDouble (of_int (digitsValue 10 (ip @ fp))
                                       * (if int (length fp) \<le> e then 10 ^ nat (e - int (length fp))
                                          else 1 / 10 ^ nat (int (length fp) - e)))))"

text \<open>\<open>NonDecimalIntegerLiteral\<close>: \<^verbatim>\<open>0x\<close>, \<^verbatim>\<open>0o\<close> or \<^verbatim>\<open>0b\<close> and digits of that radix.\<close>

definition nonDecimalRadix :: "string \<Rightarrow> nat option" where
  "nonDecimalRadix s =
     (case s of
        z # x # r \<Rightarrow>
          if z = CHR ''0'' then
            (if x = CHR ''x'' \<or> x = CHR ''X'' then Some 16
             else if x = CHR ''o'' \<or> x = CHR ''O'' then Some 8
             else if x = CHR ''b'' \<or> x = CHR ''B'' then Some 2
             else None)
          else None
      | _ \<Rightarrow> None)"

definition negate :: "jsnum \<Rightarrow> jsnum" where
  "negate x = (case x of NaN \<Rightarrow> NaN | NegInf \<Rightarrow> PosInf | PosInf \<Rightarrow> NegInf | Fin q \<Rightarrow> Fin (- q))"

definition Number :: "string \<Rightarrow> jsnum" where
  "Number str =
     (let s = trimString str
      in if s = [] then Fin 0
         else (case nonDecimalRadix s of
                 Some radix \<Rightarrow>
                   (let ds = drop 2 s
                    in if ds \<noteq> [] \<and> list_all (isDigitOf radix) ds
                       then roundToDouble (of_int (digitsValue radix ds))
                       else NaN)
               | None \<Rightarrow>
                   (case s of
                      [] \<Rightarrow> Fin 0
                    | c # r \<Rightarrow> if c = CHR ''+'' then strUnsignedDecimalLiteral r
                                else if c = CHR ''-'' then negate (strUnsignedDecimalLiteral r)
                                else strUnsignedDecimalLiteral s)))"

text \<open>\<^verbatim>\<open>s.split(sep)\<close> for a one-character separator: never an empty array.\<close>

fun split :: "char \<Rightarrow> string \<Rightarrow> string list" where
  "split sep [] = [[]]"
| "split sep (c # cs) =
     (if c = sep then [] # split sep cs
      else (case split sep cs of [] \<Rightarrow> [[c]] | w # ws \<Rightarrow> (c # w) # ws))"

text \<open>Array destructuring \<^verbatim>\<open>const [a, b] = xs\<close>: a missing element is \<^verbatim>\<open>undefined\<close>.\<close>

definition element :: "jsnum list \<Rightarrow> nat \<Rightarrow> jsval" where
  "element xs i = (if i < length xs then Num (xs ! i) else Undefined)"

section \<open>Documents and collections\<close>

text \<open>
  An ObjectId is an opaque key. A route parameter is a string that Mongoose casts to an
  ObjectId when it builds a query or a document; \<open>BadId\<close> is a string for which the cast
  fails. A payload field is absent, present with a value that the schema type accepts
  after casting (\<open>Given\<close>), or present with a value the cast rejects. Payloads are plain
  documents of schema paths, without \<^verbatim>\<open>null\<close> values and without update operators.
\<close>

type_synonym oid = nat

datatype idparam = BadId | Oid oid

datatype 'a bodyField = Missing | Uncastable | Given 'a

datatype error = CastError | ValidationError | DuplicateKeyError

text \<open>\<^verbatim>\<open>patientSchema\<close> of \<^verbatim>\<open>model/patientModel.js\<close>.\<close>

record patient =
  p_id :: oid
  name :: string
  age :: rat
  gender :: string
  address :: "string option"
  phoneNumber :: "string option"
  medicalHistory :: "string list"
  criticalCondition :: bool

text \<open>
  \<^verbatim>\<open>testSchema\<close> of \<^verbatim>\<open>model/testsModel.js\<close>, with \<^verbatim>\<open>type\<close> and \<^verbatim>\<open>value\<close> written
  \<open>t_type\<close> and \<open>t_value\<close>; a date is a time value in milliseconds.
\<close>

record test =
  t_id :: oid
  patientId :: oid
  date :: int
  t_type :: string
  t_value :: string

definition testTypes :: "string list" where
  "testTypes = [''Blood Pressure'', ''Respiratory Rate'', ''Blood Oxygen Level'', ''Heartbeat Rate'']"

text \<open>The two collections, each in natural (insertion) order.\<close>

record store =
  patients :: "patient list"
  tests :: "test list"

text \<open>What a handler reads from outside the store: the clock and the ObjectId generator.\<close>

record env =
  now :: int
  newId :: oid

record patientBody =
  b_name :: "string bodyField"
  b_age :: "rat bodyField"
  b_gender :: "string bodyField"
  b_address :: "string bodyField"
  b_phoneNumber :: "string bodyField"
  b_medicalHistory :: "string list bodyField"
  b_criticalCondition :: "bool bodyField"

record testBody =
  b_patientId :: "oid bodyField"
  b_date :: "int bodyField"
  b_type :: "string bodyField"
  b_value :: "string bodyField"

subsection \<open>Model queries\<close>

definition findById :: "('d \<Rightarrow> oid) \<Rightarrow> 'd list \<Rightarrow> oid \<Rightarrow> 'd option" where
  "findById idOf docs i = find (\<lambda>d. idOf d = i) docs"

text \<open>Ids are unique keys of a collection: an update or a delete by id touches one document.\<close>

fun updateOne :: "('d \<Rightarrow> oid) \<Rightarrow> ('d \<Rightarrow> 'd) \<Rightarrow> 'd list \<Rightarrow> oid \<Rightarrow> 'd list" where
  "updateOne idOf f [] i = []"
| "updateOne idOf f (d # ds) i = (if idOf d = i then f d # ds else d # updateOne idOf f ds i)"

fun deleteOne :: "('d \<Rightarrow> oid) \<Rightarrow> 'd list \<Rightarrow> oid \<Rightarrow> 'd list" where
  "deleteOne idOf [] i = []"
| "deleteOne idOf (d # ds) i = (if idOf d = i then ds else d # deleteOne idOf ds i)"

text \<open>With \<^verbatim>\<open>new: true\<close> the updated document is returned; \<open>None\<close> is \<^verbatim>\<open>null\<close>.\<close>

definition findByIdAndUpdate ::
    "('d \<Rightarrow> oid) \<Rightarrow> ('d \<Rightarrow> 'd) \<Rightarrow> 'd list \<Rightarrow> oid \<Rightarrow> 'd option \<times> 'd list" where
  "findByIdAndUpdate idOf f docs i = (map_option f (findById idOf docs i), updateOne idOf f docs i)"

definition findByIdAndDelete :: "('d \<Rightarrow> oid) \<Rightarrow> 'd list \<Rightarrow> oid \<Rightarrow> 'd option \<times> 'd list" where
  "findByIdAndDelete idOf docs i = (findById idOf docs i, deleteOne idOf docs i)"

text \<open>
  \<^verbatim>\<open>Test.find({ patientId })\<close> and \<^verbatim>\<open>.sort({ date: -1 })\<close>. The database leaves the
  order of equal dates open; here they stay in natural order.
\<close>

definition findByPatient :: "test list \<Rightarrow> oid \<Rightarrow> test list" where
  "findByPatient ts p = filter (\<lambda>t. patientId t = p) ts"

definition sortByDateDesc :: "test list \<Rightarrow> test list" where
  "sortByDateDesc ts = sort_key (\<lambda>t. - date t) ts"

text \<open>
  A stored test as the document the database holds, and an inclusive projection
  \<^verbatim>\<open>.select('a b c')\<close>, which keeps the listed paths that exist, and \<^verbatim>\<open>_id\<close>.
\<close>

datatype fieldval = IdVal oid | DateVal int | StrVal string | NumVal int

type_synonym document = "(string \<times> fieldval) list"

definition testDocument :: "test \<Rightarrow> document" where
  "testDocument t =
     [(''_id'', IdVal (t_id t)), (''patientId'', IdVal (patientId t)), (''date'', DateVal (date t)),
      (''type'', StrVal (t_type t)), (''value'', StrVal (t_value t)), (''__v'', NumVal 0)]"

definition select :: "string \<Rightarrow> document \<Rightarrow> document" where
  "select paths doc = filter (\<lambda>(k, v). k = ''_id'' \<or> k \<in> set (split (CHR '' '') paths)) doc"

subsection \<open>Schema casting and validation\<close>

definition uncastable :: "'a bodyField \<Rightarrow> bool" where
  "uncastable f = (case f of Uncastable \<Rightarrow> True | _ \<Rightarrow> False)"

definition merge :: "'a bodyField \<Rightarrow> 'a \<Rightarrow> 'a" where
  "merge f old = (case f of Given x \<Rightarrow> x | _ \<Rightarrow> old)"

definition mergeOpt :: "'a bodyField \<Rightarrow> 'a option \<Rightarrow> 'a option" where
  "mergeOpt f old = (case f of Given x \<Rightarrow> Some x | _ \<Rightarrow> old)"

text \<open>A required String path rejects the empty string; an enum path takes its listed values.\<close>

definition requiredString :: "string bodyField \<Rightarrow> bool" where
  "requiredString f = (case f of Given x \<Rightarrow> x \<noteq> [] | _ \<Rightarrow> False)"

definition validType :: "string bodyField \<Rightarrow> bool" where
  "validType f = (case f of Given x \<Rightarrow> x \<noteq> [] \<and> x \<in> set testTypes | _ \<Rightarrow> False)"

text \<open>
  \<^verbatim>\<open>new Patient(req.body)\<close> and \<^verbatim>\<open>save()\<close>: defaults fill absent paths, then the
  document is validated and inserted.
\<close>

definition newPatient :: "env \<Rightarrow> patientBody \<Rightarrow> error + patient" where
  "newPatient e b =
     (if uncastable (b_address b) \<or> uncastable (b_phoneNumber b)
         \<or> uncastable (b_medicalHistory b) \<or> uncastable (b_criticalCondition b)
      then Inl ValidationError
      else (case (b_name b, b_age b, b_gender b) of
              (Given n, Given a, Given g) \<Rightarrow>
                if n \<noteq> [] \<and> g \<noteq> [] then
                  Inr \<lparr>p_id = newId e, name = n, age = a, gender = g,
                       address = mergeOpt (b_address b) None,
                       phoneNumber = mergeOpt (b_phoneNumber b) None,
                       medicalHistory = merge (b_medicalHistory b) [],
                       criticalCondition = merge (b_criticalCondition b) False\<rparr>
                else Inl ValidationError
            | _ \<Rightarrow> Inl ValidationError))"

text \<open>
  \<^verbatim>\<open>new Test({ patientId: req.params.id, type: req.body.type, value: req.body.value })\<close>
  and its validation: the date is the schema default \<^verbatim>\<open>Date.now\<close>.
\<close>

definition newTest :: "env \<Rightarrow> idparam \<Rightarrow> string bodyField \<Rightarrow> string bodyField \<Rightarrow> error + test" where
  "newTest e pid ty v =
     (case (pid, ty, v) of
        (Oid p, Given ty', Given v') \<Rightarrow>
          if validType ty \<and> requiredString v
          then Inr \<lparr>t_id = newId e, patientId = p, date = now e, t_type = ty', t_value = v'\<rparr>
          else Inl ValidationError
      | _ \<Rightarrow> Inl ValidationError)"

text \<open>Inserting a document whose \<^verbatim>\<open>_id\<close> is taken fails on the unique index.\<close>

definition insertOne :: "('d \<Rightarrow> oid) \<Rightarrow> 'd list \<Rightarrow> 'd \<Rightarrow> error + 'd list" where
  "insertOne idOf docs d = (if idOf d \<in> set (map idOf docs) then Inl DuplicateKeyError else Inr (docs @ [d]))"

text \<open>
  The update of \<^verbatim>\<open>findByIdAndUpdate(id, req.body, { new: true, runValidators: true })\<close>:
  the payload is cast to the schema and validated before the query is sent.
\<close>

definition castPatientUpdate :: "patientBody \<Rightarrow> error + (patient \<Rightarrow> patient)" where
  "castPatientUpdate b =
     (if uncastable (b_name b) \<or> uncastable (b_age b) \<or> uncastable (b_gender b)
         \<or> uncastable (b_address b) \<or> uncastable (b_phoneNumber b)
         \<or> uncastable (b_medicalHistory b) \<or> uncastable (b_criticalCondition b)
      then Inl CastError
      else if (b_name b \<noteq> Missing \<and> \<not> requiredString (b_name b))
           \<or> (b_gender b \<noteq> Missing \<and> \<not> requiredString (b_gender b))
      then Inl ValidationError
      else Inr (\<lambda>p. p\<lparr>name := merge (b_name b) (name p),
                       age := merge (b_age b) (age p),
                       gender := merge (b_gender b) (gender p),
                       address := mergeOpt (b_address b) (address p),
                       phoneNumber := mergeOpt (b_phoneNumber b) (phoneNumber p),
                       medicalHistory := merge (b_medicalHistory b) (medicalHistory p),
                       criticalCondition := merge (b_criticalCondition b) (criticalCondition p)\<rparr>))"

definition castTestUpdate :: "testBody \<Rightarrow> error + (test \<Rightarrow> test)" where
  "castTestUpdate b =
     (if uncastable (b_patientId b) \<or> uncastable (b_date b)
         \<or> uncastable (b_type b) \<or> uncastable (b_value b)
      then Inl CastError
      else if (b_type b \<noteq> Missing \<and> \<not> validType (b_type b))
           \<or> (b_value b \<noteq> Missing \<and> \<not> requiredString (b_value b))
      then Inl ValidationError
      else Inr (\<lambda>t. t\<lparr>patientId := merge (b_patientId b) (patientId t),
                       date := merge (b_date b) (date t),
                       t_type := merge (b_type b) (t_type t),
                       t_value := merge (b_value b) (t_value t)\<rparr>))"

section \<open>The controller\<close>

text \<open>
  \<^verbatim>\<open>controller/hospitalController.js\<close>. A handler takes the store and the request and gives
  the response (status and JSON body) and the store it leaves. A handler that only reads
  gives the response alone.
\<close>

datatype body =
    PatientBody patient
  | PatientsBody "patient list"
  | TestBody test
  | TestsBody "test list"
  | DocumentsBody "document list"
  | HistoryBody patient "test list"
  | MessageBody string
  | ErrorBody error

datatype response = Response nat body

definition addPatient :: "env \<Rightarrow> store \<Rightarrow> patientBody \<Rightarrow> response \<times> store" where
  "addPatient e s b =
     (case newPatient e b of
        Inl err \<Rightarrow> (Response 400 (ErrorBody err), s)
      | Inr patient \<Rightarrow>
          (case insertOne p_id (patients s) patient of
             Inl err \<Rightarrow> (Response 400 (ErrorBody err), s)
           | Inr ps \<Rightarrow> (Response 201 (PatientBody patient), s\<lparr>patients := ps\<rparr>)))"

definition getAllPatients :: "store \<Rightarrow> response" where
  "getAllPatients s = Response 200 (PatientsBody (patients s))"

definition getPatientById :: "store \<Rightarrow> idparam \<Rightarrow> response" where
  "getPatientById s id' =
     (case id' of
        BadId \<Rightarrow> Response 500 (ErrorBody CastError)
      | Oid i \<Rightarrow>
          (case findById p_id (patients s) i of
             None \<Rightarrow> Response 404 (MessageBody ''Patient not found'')
           | Some patient \<Rightarrow> Response 200 (PatientBody patient)))"

text \<open>
  The switch of \<^verbatim>\<open>updatePatientCriticalCondition\<close> over the latest test: \<^verbatim>\<open>isCritical\<close>
  starts false and no case is the default.
\<close>

definition isCritical :: "test \<Rightarrow> bool" where
  "isCritical latestTest =
     (if t_type latestTest = ''Blood Pressure'' then
        (let parts = map Number (split (CHR ''/'') (t_value latestTest));
             systolic = element parts 0;
             diastolic = element parts 1
         in js_gt systolic (Num (Fin 180)) \<or> js_lt systolic (Num (Fin 90))
            \<or> js_gt diastolic (Num (Fin 120)) \<or> js_lt diastolic (Num (Fin 60)))
      else if t_type latestTest = ''Respiratory Rate'' then
        (let rate = Num (Number (t_value latestTest))
         in js_gt rate (Num (Fin 30)) \<or> js_lt rate (Num (Fin 12)))
      else if t_type latestTest = ''Blood Oxygen Level'' then
        (let oxygenLevel = Num (Number (t_value latestTest))
         in js_lt oxygenLevel (Num (Fin 90)))
      else if t_type latestTest = ''Heartbeat Rate'' then
        (let heartRate = Num (Number (t_value latestTest))
         in js_gt heartRate (Num (Fin 100)) \<or> js_lt heartRate (Num (Fin 60)))
      else False)"

text \<open>
  \<^verbatim>\<open>Test.find({ patientId }).sort({ date: -1 }).limit(1)\<close>, then, when a test was found,
  \<^verbatim>\<open>Patient.findByIdAndUpdate(patientId, { criticalCondition: isCritical })\<close>. Casting the
  id for the query is the one step that can throw.
\<close>

definition recentTests :: "store \<Rightarrow> oid \<Rightarrow> test list" where
  "recentTests s p = take 1 (sortByDateDesc (findByPatient (tests s) p))"

definition updatePatientCriticalCondition :: "store \<Rightarrow> idparam \<Rightarrow> error + store" where
  "updatePatientCriticalCondition s patientId' =
     (case patientId' of
        BadId \<Rightarrow> Inl CastError
      | Oid p \<Rightarrow>
          (case recentTests s p of
             [] \<Rightarrow> Inr s
           | latestTest # _ \<Rightarrow>
               Inr (s\<lparr>patients :=
                      snd (findByIdAndUpdate p_id
                             (\<lambda>d. d\<lparr>criticalCondition := isCritical latestTest\<rparr>)
                             (patients s) p)\<rparr>)))"

text \<open>
  Any exception inside the \<^verbatim>\<open>try\<close> block gives status 400; a test that was saved before
  the exception stays saved.
\<close>

definition addTestForPatient :: "env \<Rightarrow> store \<Rightarrow> idparam \<Rightarrow> testBody \<Rightarrow> response \<times> store" where
  "addTestForPatient e s id' b =
     (case newTest e id' (b_type b) (b_value b) of
        Inl err \<Rightarrow> (Response 400 (ErrorBody err), s)
      | Inr test \<Rightarrow>
          (case insertOne t_id (tests s) test of
             Inl err \<Rightarrow> (Response 400 (ErrorBody err), s)
           | Inr ts \<Rightarrow>
               (case updatePatientCriticalCondition (s\<lparr>tests := ts\<rparr>) id' of
                  Inl err \<Rightarrow> (Response 400 (ErrorBody err), s\<lparr>tests := ts\<rparr>)
                | Inr s' \<Rightarrow> (Response 201 (TestBody test), s'))))"

definition getTestsForPatient :: "store \<Rightarrow> idparam \<Rightarrow> response" where
  "getTestsForPatient s id' =
     (case id' of
        BadId \<Rightarrow> Response 500 (ErrorBody CastError)
      | Oid p \<Rightarrow>
          Response 200
            (DocumentsBody
               (map (select ''type value date createdAt updatedAt'' \<circ> testDocument)
                  (sortByDateDesc (findByPatient (tests s) p)))))"

definition getPatientHistory :: "store \<Rightarrow> idparam \<Rightarrow> response" where
  "getPatientHistory s id' =
     (case id' of
        BadId \<Rightarrow> Response 500 (ErrorBody CastError)
      | Oid p \<Rightarrow>
          (case findById p_id (patients s) p of
             None \<Rightarrow> Response 404 (MessageBody ''Patient not found'')
           | Some patient \<Rightarrow>
               Response 200 (HistoryBody patient (sortByDateDesc (findByPatient (tests s) p)))))"

definition getCriticalPatients :: "store \<Rightarrow> response" where
  "getCriticalPatients s = Response 200 (PatientsBody (filter criticalCondition (patients s)))"

definition updatePatient :: "store \<Rightarrow> idparam \<Rightarrow> patientBody \<Rightarrow> response \<times> store" where
  "updatePatient s id' b =
     (case id' of
        BadId \<Rightarrow> (Response 400 (ErrorBody CastError), s)
      | Oid i \<Rightarrow>
          (case castPatientUpdate b of
             Inl err \<Rightarrow> (Response 400 (ErrorBody err), s)
           | Inr f \<Rightarrow>
               (case findByIdAndUpdate p_id f (patients s) i of
                  (None, _) \<Rightarrow> (Response 404 (MessageBody ''Patient not found''), s)
                | (Some patient, ps) \<Rightarrow> (Response 200 (PatientBody patient), s\<lparr>patients := ps\<rparr>))))"

definition deletePatient :: "store \<Rightarrow> idparam \<Rightarrow> response \<times> store" where
  "deletePatient s id' =
     (case id' of
        BadId \<Rightarrow> (Response 500 (ErrorBody CastError), s)
      | Oid i \<Rightarrow>
          (case findByIdAndDelete p_id (patients s) i of
             (None, _) \<Rightarrow> (Response 404 (MessageBody ''Patient not found''), s)
           | (Some patient, ps) \<Rightarrow>
               (Response 200 (MessageBody ''Patient deleted successfully''), s\<lparr>patients := ps\<rparr>)))"

definition updateTest :: "store \<Rightarrow> idparam \<Rightarrow> testBody \<Rightarrow> response \<times> store" where
  "updateTest s testId b =
     (case testId of
        BadId \<Rightarrow> (Response 400 (ErrorBody CastError), s)
      | Oid i \<Rightarrow>
          (case castTestUpdate b of
             Inl err \<Rightarrow> (Response 400 (ErrorBody err), s)
           | Inr f \<Rightarrow>
               (case findByIdAndUpdate t_id f (tests s) i of
                  (None, _) \<Rightarrow> (Response 404 (MessageBody ''Test not found''), s)
                | (Some test, ts) \<Rightarrow> (Response 200 (TestBody test), s\<lparr>tests := ts\<rparr>))))"

definition deleteTest :: "store \<Rightarrow> idparam \<Rightarrow> response \<times> store" where
  "deleteTest s testId =
     (case testId of
        BadId \<Rightarrow> (Response 500 (ErrorBody CastError), s)
      | Oid i \<Rightarrow>
          (case findByIdAndDelete t_id (tests s) i of
             (None, _) \<Rightarrow> (Response 404 (MessageBody ''Test not found''), s)
           | (Some test, ts) \<Rightarrow>
               (Response 200 (MessageBody ''Test deleted successfully''), s\<lparr>tests := ts\<rparr>)))"

definition getTestById :: "store \<Rightarrow> idparam \<Rightarrow> response" where
  "getTestById s testId =
     (case testId of
        BadId \<Rightarrow> Response 500 (ErrorBody CastError)
      | Oid i \<Rightarrow>
          (case findById t_id (tests s) i of
             None \<Rightarrow> Response 404 (MessageBody ''Test not found'')
           | Some test \<Rightarrow> Response 200 (TestBody test)))"

subsection \<open>The routes\<close>

text \<open>
  \<^verbatim>\<open>routes/hospitalRoutes.js\<close> binds each verb and path to one handler. The test routes
  carry the patient id in the path as well; their handlers read the test id alone.
\<close>

datatype request =
    POST_patients patientBody
  | GET_patients
  | GET_patients_critical
  | GET_patient idparam
  | PUT_patient idparam patientBody
  | DELETE_patient idparam
  | POST_tests idparam testBody
  | GET_tests idparam
  | PUT_test idparam idparam testBody
  | DELETE_test idparam idparam
  | GET_history idparam
  | GET_test idparam idparam

fun router :: "env \<Rightarrow> store \<Rightarrow> request \<Rightarrow> response \<times> store" where
  "router e s (POST_patients b) = addPatient e s b"
| "router e s GET_patients = (getAllPatients s, s)"
| "router e s GET_patients_critical = (getCriticalPatients s, s)"
| "router e s (GET_patient id') = (getPatientById s id', s)"
| "router e s (PUT_patient id' b) = updatePatient s id' b"
| "router e s (DELETE_patient id') = deletePatient s id'"
| "router e s (POST_tests id' b) = addTestForPatient e s id' b"
| "router e s (GET_tests id') = (getTestsForPatient s id', s)"
| "router e s (PUT_test id' testId b) = updateTest s testId b"
| "router e s (DELETE_test id' testId) = deleteTest s testId"
| "router e s (GET_history id') = (getPatientHistory s id', s)"
| "router e s (GET_test patientId' testId) = (getTestById s testId, s)"

text \<open>The store after a sequence of requests, each with the clock and generator it met.\<close>

fun serve :: "store \<Rightarrow> (env \<times> request) list \<Rightarrow> store" where
  "serve s [] = s"
| "serve s ((e, r) # rs) = serve (snd (router e s r)) rs"

definition emptyStore :: store where
  "emptyStore = \<lparr>patients = [], tests = []\<rparr>"

section \<open>The specification's readings\<close>

text \<open>
  The specification speaks of the numeric value of a reading and of thresholds. These
  definitions follow its words: the numeric value is above or below a bound (a value that
  is no number is neither), and a blood pressure value reads as systolic, a slash,
  diastolic.
\<close>

definition isAbove :: "jsval \<Rightarrow> rat \<Rightarrow> bool" where
  "isAbove x k = (case x of Num (Fin q) \<Rightarrow> k < q | Num PosInf \<Rightarrow> True | _ \<Rightarrow> False)"

definition isBelow :: "jsval \<Rightarrow> rat \<Rightarrow> bool" where
  "isBelow x k = (case x of Num (Fin q) \<Rightarrow> q < k | Num NegInf \<Rightarrow> True | _ \<Rightarrow> False)"

definition numericValue :: "string \<Rightarrow> jsval" where
  "numericValue v = Num (Number v)"

definition systolicPart :: "string \<Rightarrow> string" where
  "systolicPart v = takeWhile (\<lambda>c. c \<noteq> CHR ''/'') v"

definition diastolicPart :: "string \<Rightarrow> string option" where
  "diastolicPart v = (case dropWhile (\<lambda>c. c \<noteq> CHR ''/'') v of
                        [] \<Rightarrow> None
                      | _ # r \<Rightarrow> Some (takeWhile (\<lambda>c. c \<noteq> CHR ''/'') r))"

definition systolic :: "string \<Rightarrow> jsval" where
  "systolic v = numericValue (systolicPart v)"

definition diastolic :: "string \<Rightarrow> jsval" where
  "diastolic v = (case diastolicPart v of None \<Rightarrow> Undefined | Some d \<Rightarrow> numericValue d)"


text \<open>
  The criticalCondition flag of patient \<open>p\<close> (\<open>None\<close> when no such patient is stored), and
  the patient collection after that flag is set.
\<close>

definition flagOf :: "store \<Rightarrow> oid \<Rightarrow> bool option" where
  "flagOf s p = map_option criticalCondition (findById p_id (patients s) p)"

definition setFlag :: "bool \<Rightarrow> oid \<Rightarrow> patient list \<Rightarrow> patient list" where
  "setFlag c p ps = updateOne p_id (\<lambda>d. d\<lparr>criticalCondition := c\<rparr>) ps p"

text \<open>
  The test record that a creation request for patient \<open>p\<close> with type \<open>ty\<close> and value \<open>v\<close>
  stands for, the fields a listed test is shown with, the invariant on stored test types,
  and a patient update payload that passes casting and validation.
\<close>

definition created :: "env \<Rightarrow> oid \<Rightarrow> string \<Rightarrow> string \<Rightarrow> test" where
  "created e p ty v = \<lparr>t_id = newId e, patientId = p, date = now e, t_type = ty, t_value = v\<rparr>"



definition payloadAccepted :: "patientBody \<Rightarrow> bool" where
  "payloadAccepted b = (case castPatientUpdate b of Inl err \<Rightarrow> False | Inr f \<Rightarrow> True)"

section \<open>Example data\<close>

text \<open>
  One patient, a few readings and request payloads. The sequence \<open>redated\<close> registers the
  patient, records a heartbeat reading and then moves that reading's date ahead of the
  clock through the update route.
\<close>

definition ann :: patient where
  "ann = \<lparr>p_id = 1, name = ''Ann'', age = 30, gender = ''female'', address = None,
          phoneNumber = None, medicalHistory = [], criticalCondition = False\<rparr>"

definition criticalAnn :: patient where
  "criticalAnn = ann\<lparr>criticalCondition := True\<rparr>"

definition annBody :: patientBody where
  "annBody = \<lparr>b_name = Given ''Ann'', b_age = Given 30, b_gender = Given ''female'',
              b_address = Missing, b_phoneNumber = Missing, b_medicalHistory = Missing,
              b_criticalCondition = Missing\<rparr>"

definition bloodPressure :: "string \<Rightarrow> testBody" where
  "bloodPressure v =
     \<lparr>b_patientId = Missing, b_date = Missing, b_type = Given ''Blood Pressure'', b_value = Given v\<rparr>"

definition heartbeat :: "string \<Rightarrow> testBody" where
  "heartbeat v =
     \<lparr>b_patientId = Missing, b_date = Missing, b_type = Given ''Heartbeat Rate'', b_value = Given v\<rparr>"

definition redate :: "int \<Rightarrow> testBody" where
  "redate d = \<lparr>b_patientId = Missing, b_date = Given d, b_type = Missing, b_value = Missing\<rparr>"

definition ward :: store where
  "ward = \<lparr>patients = [ann], tests = []\<rparr>"

definition bp2000 :: test where
  "bp2000 = \<lparr>t_id = 1, patientId = 1, date = 2000, t_type = ''Blood Pressure'', t_value = ''200/70''\<rparr>"

definition criticalWard :: store where
  "criticalWard = \<lparr>patients = [criticalAnn], tests = [bp2000]\<rparr>"

definition future70 :: test where
  "future70 = \<lparr>t_id = 1, patientId = 1, date = 9000, t_type = ''Heartbeat Rate'', t_value = ''70''\<rparr>"

definition futureWard :: store where
  "futureWard = \<lparr>patients = [ann], tests = [future70]\<rparr>"

definition redated :: "(env \<times> request) list" where
  "redated =
     [(\<lparr>now = 1000, newId = 1\<rparr>, POST_patients annBody),
      (\<lparr>now = 2000, newId = 1\<rparr>, POST_tests (Oid 1) (heartbeat ''70'')),
      (\<lparr>now = 3000, newId = 2\<rparr>, PUT_test (Oid 1) (Oid 1) (redate 9000))]"

definition bp4000 :: test where
  "bp4000 = \<lparr>t_id = 2, patientId = 1, date = 4000, t_type = ''Blood Pressure'', t_value = ''200/70''\<rparr>"

definition unlisted150 :: test where
  "unlisted150 = \<lparr>t_id = 1, patientId = 1, date = 2000, t_type = ''Heart Rate'', t_value = ''150''\<rparr>"





section \<open>Numbers\<close>

text \<open>
  An integer below \<open>2^53\<close> is a binary64 value, so rounding leaves it alone, and a string
  of decimal digits denotes the integer it spells.
\<close>

lemma pow2_nonneg: "0 \<le> e \<Longrightarrow> pow2 e = 2 ^ nat e"
  by (simp add: pow2_def)

lemma pow2_nonpos: "e \<le> 0 \<Longrightarrow> pow2 e = 1 / 2 ^ nat (- e)"
  by (cases "e = 0") (simp_all add: pow2_def)

lemma ilog2_of_int:
  assumes "0 < n"
  shows "ilog2 (of_int n) = bitlen n - 1"
proof -
  have one: "bitlen 1 = 1"
    by (simp add: bitlen_alt_def)
  have ge: "0 \<le> bitlen n - 1"
    using assms by (simp add: bitlen_alt_def)
  have "(2::int) ^ nat (bitlen n - 1) \<le> n"
    using bitlen_bounds [OF assms] by simp
  then have "(of_int ((2::int) ^ nat (bitlen n - 1)) :: rat) \<le> of_int n"
    by (simp only: of_int_le_iff)
  then have "pow2 (bitlen n - 1) \<le> of_int n"
    by (simp add: pow2_nonneg [OF ge])
  then show ?thesis
    by (simp add: ilog2_def one)
qed

lemma roundHalfEven_of_int: "roundHalfEven (of_int k) = k"
  by (simp add: roundHalfEven_def)

lemma roundToDouble_of_int:
  assumes "0 < n" and "n < 2 ^ 53"
  shows "roundToDouble (of_int n) = Fin (of_int n)"
proof -
  define e where "e = bitlen n - 1"
  define k where "k = nat (52 - e)"
  have ge: "0 \<le> e"
    using assms(1) by (simp add: e_def bitlen_alt_def)
  have "bitlen n \<le> 53"
    using assms(2) by (simp add: bitlen_le_iff_power)
  then have le: "e \<le> 52"
    by (simp add: e_def)
  have log: "ilog2 (of_int n) = e"
    using ilog2_of_int [OF assms(1)] by (simp add: e_def)
  have ulp: "pow2 (e - 52) = 1 / 2 ^ k"
    using le pow2_nonpos [of "e - 52"] by (simp add: k_def)
  have "(of_int n :: rat) / (1 / 2 ^ k) = of_int (n * 2 ^ k)"
    by simp
  then have r: "of_int (roundHalfEven ((of_int n :: rat) / (1 / 2 ^ k))) * (1 / 2 ^ k) = (of_int n :: rat)"
    by (simp only: roundHalfEven_of_int) simp
  have "(of_int n :: rat) < of_int (2 ^ 53)"
    using assms(2) by (simp only: of_int_less_iff)
  also have "\<dots> \<le> 2 ^ 1024"
    by simp
  finally have small: "\<not> pow2 1024 \<le> (of_int n :: rat)"
    by (simp add: pow2_def)
  have m: "\<bar>of_int n :: rat\<bar> = of_int n" and pos: "(0::rat) < of_int n" and nz: "(of_int n :: rat) \<noteq> 0"
    using assms(1) by simp_all
  have mx: "max e (- 1022) = e"
    using ge by simp
  show ?thesis
    unfolding roundToDouble_def Let_def m log mx ulp r
    using small pos nz by simp
qed

lemma isDigitOf_10: "isDigitOf 10 c \<longleftrightarrow> 48 \<le> (of_char c :: nat) \<and> (of_char c :: nat) \<le> 57"
  by (auto simp: isDigitOf_def digitValue_def Let_def)

lemma digit_not_special:
  assumes "isDigitOf 10 c"
  shows "\<not> isStrWhiteSpaceChar c" and "c \<noteq> CHR ''+''" and "c \<noteq> CHR ''-''" and "c \<noteq> CHR ''I''"
    and "c \<noteq> CHR ''x''" and "c \<noteq> CHR ''X''" and "c \<noteq> CHR ''o''" and "c \<noteq> CHR ''O''"
    and "c \<noteq> CHR ''b''" and "c \<noteq> CHR ''B''"
  using assms by (auto simp: isDigitOf_10 isStrWhiteSpaceChar_def)

lemma Number_digits:
  assumes "ds \<noteq> []" and "list_all (isDigitOf 10) ds"
  shows "Number ds = roundToDouble (of_int (digitsValue 10 ds))"
proof -
  obtain c r where ds: "ds = c # r"
    using assms(1) by (cases ds) auto
  have all: "\<forall>x \<in> set ds. isDigitOf 10 x"
    using assms(2) by (simp add: list_all_iff)
  then have c: "isDigitOf 10 c" and l: "isDigitOf 10 (last ds)"
    using assms(1) by (auto simp: ds)
  have "dropWhile isStrWhiteSpaceChar ds = ds"
    using digit_not_special(1) [OF c] by (simp add: ds)
  moreover have "dropWhile isStrWhiteSpaceChar (rev ds) = rev ds"
    using digit_not_special(1) [OF l] assms(1) by (simp add: dropWhile_eq_self_iff hd_rev)
  ultimately have trim: "trimString ds = ds"
    by (simp add: trimString_def)
  have radix: "nonDecimalRadix ds = None"
  proof (cases r)
    case Nil
    then show ?thesis by (simp add: nonDecimalRadix_def ds)
  next
    case (Cons x r')
    then have "isDigitOf 10 x"
      using all by (simp add: ds)
    from digit_not_special [OF this] show ?thesis
      by (simp add: nonDecimalRadix_def ds Cons)
  qed
  have tw: "takeWhile (isDigitOf 10) ds = ds" and dw: "dropWhile (isDigitOf 10) ds = []"
    using all by (simp_all add: takeWhile_eq_all_conv)
  have inf: "ds \<noteq> ''Infinity''"
    using digit_not_special(4) [OF c] by (auto simp: ds)
  have "strUnsignedDecimalLiteral ds = roundToDouble (of_int (digitsValue 10 ds))"
    using assms(1) inf by (simp add: strUnsignedDecimalLiteral_def tw dw exponentPart_def)
  then show ?thesis
    using digit_not_special [OF c] by (simp add: Number_def Let_def trim [unfolded ds] radix [unfolded ds] ds)
qed

lemma Number_small:
  assumes "ds \<noteq> []" and "list_all (isDigitOf 10) ds"
    and "0 < digitsValue 10 ds" and "digitsValue 10 ds < 2 ^ 53"
  shows "Number ds = Fin (of_int (digitsValue 10 ds))"
  using Number_digits [OF assms(1,2)] roundToDouble_of_int [OF assms(3,4)] by simp

lemma Number_200: "Number ''200'' = Fin 200"
proof -
  have "digitsValue 10 ''200'' = 200" and "list_all (isDigitOf 10) ''200''"
    by code_simp+
  then show ?thesis
    using Number_small [of "''200''"] by simp
qed

lemma Number_110: "Number ''110'' = Fin 110"
proof -
  have "digitsValue 10 ''110'' = 110" and "list_all (isDigitOf 10) ''110''"
    by code_simp+
  then show ?thesis
    using Number_small [of "''110''"] by simp
qed

lemma Number_70: "Number ''70'' = Fin 70"
proof -
  have "digitsValue 10 ''70'' = 70" and "list_all (isDigitOf 10) ''70''"
    by code_simp+
  then show ?thesis
    using Number_small [of "''70''"] by simp
qed

section \<open>Classification against the thresholds\<close>

lemma js_gt_above: "js_gt x (Num (Fin k)) = isAbove x k"
  by (cases x; cases "ToNumber x") (auto simp: js_gt_def isAbove_def)

lemma js_lt_below: "js_lt x (Num (Fin k)) = isBelow x k"
  by (cases x; cases "ToNumber x") (auto simp: js_lt_def isBelow_def)


lemma split_unfold:
  "split sep s = takeWhile (\<lambda>c. c \<noteq> sep) s
                 # (case dropWhile (\<lambda>c. c \<noteq> sep) s of [] \<Rightarrow> [] | _ # r \<Rightarrow> split sep r)"
  by (induction s) (auto split: list.splits)

lemma split_neq_Nil: "split sep s \<noteq> []"
  by (subst split_unfold) simp

lemma hd_split: "hd (split sep s) = takeWhile (\<lambda>c. c \<noteq> sep) s"
  by (subst split_unfold) simp

lemma element_split_0:
  "element (map Number (split sep s)) 0 = numericValue (takeWhile (\<lambda>c. c \<noteq> sep) s)"
  by (subst split_unfold) (simp add: element_def numericValue_def)

lemma element_split_1:
  "element (map Number (split sep s)) (Suc 0) =
     (case dropWhile (\<lambda>c. c \<noteq> sep) s of
        [] \<Rightarrow> Undefined
      | _ # r \<Rightarrow> numericValue (takeWhile (\<lambda>c. c \<noteq> sep) r))"
proof (cases "dropWhile (\<lambda>c. c \<noteq> sep) s")
  case Nil
  have "split sep s = [takeWhile (\<lambda>c. c \<noteq> sep) s]"
    by (subst split_unfold) (simp only: Nil list.case)
  then show ?thesis
    unfolding Nil by (simp add: element_def)
next
  case (Cons c r)
  have "split sep s = takeWhile (\<lambda>c. c \<noteq> sep) s # split sep r"
    by (subst split_unfold) (simp only: Cons list.case)
  moreover have "split sep r = takeWhile (\<lambda>c. c \<noteq> sep) r # tl (split sep r)"
    using hd_split [of sep r] split_neq_Nil [of sep r] by (metis list.collapse)
  ultimately have "map Number (split sep s) ! Suc 0 = Number (takeWhile (\<lambda>c. c \<noteq> sep) r)"
    and "Suc 0 < length (map Number (split sep s))"
    by (metis nth_Cons_0 nth_Cons_Suc list.simps(9),
        metis length_map length_Cons Suc_less_eq zero_less_Suc)
  then show ?thesis
    unfolding Cons by (simp add: element_def numericValue_def)
qed

lemma element_systolic: "element (map Number (split (CHR ''/'') v)) 0 = systolic v"
  by (simp add: element_split_0 systolic_def systolicPart_def)

lemma element_diastolic: "element (map Number (split (CHR ''/'') v)) (Suc 0) = diastolic v"
proof (cases "dropWhile (\<lambda>c. c \<noteq> CHR ''/'') v")
  case Nil
  show ?thesis
    unfolding element_split_1 diastolic_def diastolicPart_def Nil by simp
next
  case (Cons c r)
  show ?thesis
    unfolding element_split_1 diastolic_def diastolicPart_def Cons by simp
qed


lemma isCritical_by_readings:
  "isCritical t =
     (if t_type t = ''Blood Pressure'' then
        isAbove (systolic (t_value t)) 180 \<or> isBelow (systolic (t_value t)) 90
        \<or> isAbove (diastolic (t_value t)) 120 \<or> isBelow (diastolic (t_value t)) 60
      else if t_type t = ''Respiratory Rate'' then
        isAbove (numericValue (t_value t)) 30 \<or> isBelow (numericValue (t_value t)) 12
      else if t_type t = ''Blood Oxygen Level'' then isBelow (numericValue (t_value t)) 90
      else if t_type t = ''Heartbeat Rate'' then
        isAbove (numericValue (t_value t)) 100 \<or> isBelow (numericValue (t_value t)) 60
      else False)"
  by (simp add: isCritical_def js_gt_above js_lt_below element_systolic element_diastolic Let_def
        flip: numericValue_def)

lemma systolic_200_70: "systolic ''200/70'' = Num (Fin 200)"
  by (simp add: systolic_def systolicPart_def numericValue_def Number_200)

lemma diastolic_200_70: "diastolic ''200/70'' = Num (Fin 70)"
  by (simp add: diastolic_def diastolicPart_def numericValue_def Number_70)

lemma systolic_110_70: "systolic ''110/70'' = Num (Fin 110)"
  by (simp add: systolic_def systolicPart_def numericValue_def Number_110)

lemma diastolic_110_70: "diastolic ''110/70'' = Num (Fin 70)"
  by (simp add: diastolic_def diastolicPart_def numericValue_def Number_70)

lemma critical_200_70: "isCritical (created e p ''Blood Pressure'' ''200/70'')"
  by (simp add: isCritical_by_readings created_def systolic_200_70 isAbove_def)

lemma not_critical_110_70: "\<not> isCritical (created e p ''Blood Pressure'' ''110/70'')"
  by (simp add: isCritical_by_readings created_def systolic_110_70 diastolic_110_70
      isAbove_def isBelow_def)

lemma not_critical_70:
  "\<not> isCritical \<lparr>t_id = i, patientId = p, date = d, t_type = ''Heartbeat Rate'', t_value = ''70''\<rparr>"
  by (simp add: isCritical_by_readings numericValue_def Number_70 isAbove_def isBelow_def)

section \<open>Collections\<close>

lemma findById_updateOne:
  assumes "\<And>d. idOf (f d) = idOf d"
  shows "findById idOf (updateOne idOf f ds i) j =
           (if j = i then map_option f (findById idOf ds i) else findById idOf ds j)"
  using assms by (induction ds) (auto simp: findById_def)

lemma findById_None_iff: "findById idOf ds i = None \<longleftrightarrow> i \<notin> idOf ` set ds"
  by (induction ds) (auto simp: findById_def)

lemma findById_SomeD: "findById idOf ds i = Some d \<Longrightarrow> d \<in> set ds \<and> idOf d = i"
  by (induction ds) (auto simp: findById_def split: if_splits)

lemma deleteOne_remove1: "findById idOf ds i = Some d \<Longrightarrow> deleteOne idOf ds i = remove1 d ds"
  by (induction ds) (auto simp: findById_def split: if_splits dest: findById_SomeD [unfolded findById_def])

lemma filter_updateOne:
  assumes "\<And>d. idOf (f d) = idOf d"
  shows "filter (\<lambda>d. idOf d \<noteq> i) (updateOne idOf f ds i) = filter (\<lambda>d. idOf d \<noteq> i) ds"
  using assms by (induction ds) auto

lemma filter_deleteOne:
  "filter (\<lambda>d. idOf d \<noteq> i) (deleteOne idOf ds i) = filter (\<lambda>d. idOf d \<noteq> i) ds"
  by (induction ds) auto

lemma length_updateOne: "length (updateOne idOf f ds i) = length ds"
  by (induction ds) auto



lemma flagOf_setFlag:
  "flagOf (s\<lparr>patients := setFlag c p (patients s)\<rparr>) q =
     (if q = p then map_option (\<lambda>_. c) (flagOf s p) else flagOf s q)"
  by (simp add: flagOf_def setFlag_def findById_updateOne option.map_comp comp_def)

lemma flagOf_after_setFlag:
  "patients s' = setFlag c p (patients s) \<Longrightarrow> flagOf s' p = map_option (\<lambda>_. c) (flagOf s p)"
  by (simp add: flagOf_def setFlag_def findById_updateOne option.map_comp comp_def)

lemma flagOf_present: "p \<in> p_id ` set (patients s) \<Longrightarrow> \<exists>c. flagOf s p = Some c"
  by (cases "findById p_id (patients s) p") (auto simp: flagOf_def findById_None_iff)

text \<open>
  The query for the latest test returns nothing or one test; that test belongs to the
  patient and no test of the patient is dated later. A test dated strictly after all the
  others of the patient is the one returned.
\<close>

lemma sort_key_head:
  assumes "sort_key f xs = y # ys"
  shows "y \<in> set xs \<and> (\<forall>x \<in> set xs. f y \<le> f x)"
proof -
  have "set (y # ys) = set xs" using assms by (metis set_sort)
  moreover have "sorted (map f (y # ys))" using assms by (metis sorted_sort_key)
  ultimately show ?thesis by auto
qed

lemma recentTests_Nil: "recentTests s p = [] \<longleftrightarrow> findByPatient (tests s) p = []"
  by (simp add: recentTests_def sortByDateDesc_def take_Suc split: list.splits)
     (metis length_0_conv length_sort)

lemma recentTests_shape: "recentTests s p = [] \<or> (\<exists>t. recentTests s p = [t])"
  by (cases "sortByDateDesc (findByPatient (tests s) p)") (simp_all add: recentTests_def)

lemma recentTests_latest:
  assumes "recentTests s p = t # ts"
  shows "ts = [] \<and> t \<in> set (tests s) \<and> patientId t = p
         \<and> (\<forall>u \<in> set (tests s). patientId u = p \<longrightarrow> date u \<le> date t)"
proof -
  obtain rest where srt: "sort_key (\<lambda>t. - date t) (findByPatient (tests s) p) = t # rest"
    using assms by (cases "sortByDateDesc (findByPatient (tests s) p)")
      (auto simp: recentTests_def sortByDateDesc_def)
  have "ts = []"
    using assms by (cases "sortByDateDesc (findByPatient (tests s) p)") (auto simp: recentTests_def)
  with sort_key_head [OF srt] show ?thesis
    by (auto simp: findByPatient_def)
qed

lemma recentTests_newest:
  assumes "t \<in> set (tests s)" and "patientId t = p"
    and "\<forall>u \<in> set (tests s). patientId u = p \<and> u \<noteq> t \<longrightarrow> date u < date t"
  shows "recentTests s p = [t]"
proof -
  have "t \<in> set (findByPatient (tests s) p)"
    using assms by (simp add: findByPatient_def)
  then have "recentTests s p \<noteq> []"
    by (auto simp: recentTests_Nil)
  then obtain t' ts where r: "recentTests s p = t' # ts"
    by (cases "recentTests s p") auto
  from recentTests_latest [OF r] assms have "ts = []" and "t' = t"
    by (auto, force)
  with r show ?thesis by simp
qed

section \<open>Recomputing the flag\<close>

lemma updatePatientCriticalCondition_latest:
  "recentTests s p = [t] \<Longrightarrow>
     updatePatientCriticalCondition s (Oid p) = Inr (s\<lparr>patients := setFlag (isCritical t) p (patients s)\<rparr>)"
  by (simp add: updatePatientCriticalCondition_def findByIdAndUpdate_def setFlag_def)

lemma updatePatientCriticalCondition_none:
  "recentTests s p = [] \<Longrightarrow> updatePatientCriticalCondition s (Oid p) = Inr s"
  by (simp add: updatePatientCriticalCondition_def)


lemma updatePatientCriticalCondition_tests:
  "updatePatientCriticalCondition s id' = Inr s' \<Longrightarrow> tests s' = tests s"
  by (auto simp: updatePatientCriticalCondition_def split: idparam.splits list.splits)

text \<open>
  C5. A test whose type is none of the four listed types is classified non-critical, and
  when such a test is the latest one of a patient the recomputation sets that patient's
  flag to false.
\<close>

theorem unlisted_type_not_critical:
  assumes "t_type t \<notin> set testTypes"
  shows "\<not> isCritical t
         \<and> (recentTests s p = [t] \<longrightarrow>
              updatePatientCriticalCondition s (Oid p) = Inr (s\<lparr>patients := setFlag False p (patients s)\<rparr>)
              \<and> flagOf (s\<lparr>patients := setFlag False p (patients s)\<rparr>) p = map_option (\<lambda>_. False) (flagOf s p))"
proof -
  have "\<not> isCritical t"
    using assms by (auto simp: isCritical_def testTypes_def)
  then show ?thesis
    using updatePatientCriticalCondition_latest [of s p t] by (simp add: flagOf_setFlag)
qed

text \<open>A stored reading of type \<^verbatim>\<open>Heart Rate\<close> clears a flag that was set.\<close>

theorem unlisted_type_not_critical_witness:
  "t_type unlisted150 \<notin> set testTypes
   \<and> \<not> isCritical unlisted150
   \<and> recentTests \<lparr>patients = [criticalAnn], tests = [unlisted150]\<rparr> 1 = [unlisted150]
   \<and> updatePatientCriticalCondition \<lparr>patients = [criticalAnn], tests = [unlisted150]\<rparr> (Oid 1)
       = Inr \<lparr>patients = [ann], tests = [unlisted150]\<rparr>"
proof -
  have unlisted: "t_type unlisted150 \<notin> set testTypes"
    by (simp add: unlisted150_def testTypes_def)
  have latest: "recentTests \<lparr>patients = [criticalAnn], tests = [unlisted150]\<rparr> 1 = [unlisted150]"
    by code_simp
  have flag: "setFlag False 1 [criticalAnn] = [ann]"
    by (simp add: setFlag_def criticalAnn_def ann_def)
  show ?thesis
    using unlisted_type_not_critical
      [OF unlisted, where s = "\<lparr>patients = [criticalAnn], tests = [unlisted150]\<rparr>" and p = 1]
      unlisted latest flag
    by simp
qed




section \<open>Adding a test\<close>

lemma newTest_valid:
  assumes "ty \<in> set testTypes" and "v \<noteq> []"
  shows "newTest e (Oid p) (Given ty) (Given v) = Inr (created e p ty v)"
  using assms by (auto simp: newTest_def validType_def requiredString_def created_def testTypes_def)

lemma newTest_InrD:
  assumes "newTest e id' ty v = Inr t"
  shows "\<exists>p ty' v'. id' = Oid p \<and> ty = Given ty' \<and> v = Given v' \<and> ty' \<in> set testTypes \<and> v' \<noteq> []
            \<and> t = created e p ty' v'"
  using assms
  by (auto simp: newTest_def validType_def requiredString_def created_def
      split: idparam.splits bodyField.splits if_splits)


lemma recentTests_append_new:
  "\<exists>latest. recentTests (s\<lparr>tests := tests s @ [created e p ty v]\<rparr>) p = [latest]"
proof -
  have "findByPatient (tests (s\<lparr>tests := tests s @ [created e p ty v]\<rparr>)) p \<noteq> []"
    by (simp add: findByPatient_def created_def)
  then show ?thesis
    using recentTests_shape [of "s\<lparr>tests := tests s @ [created e p ty v]\<rparr>" p]
    by (simp add: recentTests_Nil)
qed

lemma recentTests_new_is_latest:
  assumes "\<forall>u \<in> set (tests s). patientId u = p \<longrightarrow> date u < now e"
  shows "recentTests (s\<lparr>tests := tests s @ [created e p ty v]\<rparr>) p = [created e p ty v]"
  by (rule recentTests_newest) (use assms in \<open>auto simp: created_def\<close>)

lemma addTest_valid:
  assumes "ty \<in> set testTypes" and "v \<noteq> []" and "newId e \<notin> t_id ` set (tests s)"
    and "recentTests (s\<lparr>tests := tests s @ [created e p ty v]\<rparr>) p = [latest]"
  shows "addTestForPatient e s (Oid p) \<lparr>b_patientId = bp, b_date = bd, b_type = Given ty, b_value = Given v\<rparr>
           = (Response 201 (TestBody (created e p ty v)),
              \<lparr>patients = setFlag (isCritical latest) p (patients s),
               tests = tests s @ [created e p ty v]\<rparr>)"
proof -
  have "insertOne t_id (tests s) (created e p ty v) = Inr (tests s @ [created e p ty v])"
    using assms(3) by (simp add: insertOne_def created_def)
  then show ?thesis
    using newTest_valid [OF assms(1,2), of e p] updatePatientCriticalCondition_latest [OF assms(4)]
    by (simp add: addTestForPatient_def)
qed

lemma addTest_rejected:
  assumes "ty \<notin> set testTypes \<or> v = []"
  shows "addTestForPatient e s id' \<lparr>b_patientId = bp, b_date = bd, b_type = Given ty, b_value = Given v\<rparr>
           = (Response 400 (ErrorBody ValidationError), s)"
  using assms
  by (auto simp: addTestForPatient_def newTest_def validType_def requiredString_def
      split: idparam.splits)

lemma addTest_newest:
  assumes "ty \<in> set testTypes" and "v \<noteq> []" and "newId e \<notin> t_id ` set (tests s)"
    and "\<forall>u \<in> set (tests s). patientId u = p \<longrightarrow> date u < now e"
  shows "addTestForPatient e s (Oid p) \<lparr>b_patientId = bp, b_date = bd, b_type = Given ty, b_value = Given v\<rparr>
           = (Response 201 (TestBody (created e p ty v)),
              \<lparr>patients = setFlag (isCritical (created e p ty v)) p (patients s),
               tests = tests s @ [created e p ty v]\<rparr>)"
  using addTest_valid [OF assms(1-3) recentTests_new_is_latest [OF assms(4)]] .

lemma blood_pressure_example:
  assumes older: "\<forall>u \<in> set (tests s). patientId u = p \<longrightarrow> date u < now e1"
    and later: "now e1 < now e2"
    and fresh: "newId e1 \<notin> t_id ` set (tests s)" "newId e2 \<notin> t_id ` set (tests s)" "newId e2 \<noteq> newId e1"
    and present: "p \<in> p_id ` set (patients s)"
  shows "flagOf (snd (addTestForPatient e1 s (Oid p) (bloodPressure ''200/70''))) p = Some True
         \<and> flagOf (snd (addTestForPatient e2 (snd (addTestForPatient e1 s (Oid p) (bloodPressure ''200/70'')))
                          (Oid p) (bloodPressure ''110/70''))) p = Some False"
proof -
  let ?t1 = "created e1 p ''Blood Pressure'' ''200/70''"
  let ?s1 = "\<lparr>patients = setFlag True p (patients s), tests = tests s @ [?t1]\<rparr>"
  have bp: "''Blood Pressure'' \<in> set testTypes"
    by (simp add: testTypes_def)
  have first: "addTestForPatient e1 s (Oid p) (bloodPressure ''200/70'') = (Response 201 (TestBody ?t1), ?s1)"
    using addTest_newest [OF bp _ fresh(1) older, of "''200/70''"] critical_200_70 [of e1 p]
    by (simp add: bloodPressure_def)
  have older1: "\<forall>u \<in> set (tests ?s1). patientId u = p \<longrightarrow> date u < now e2"
    using older later by (auto simp: created_def)
  have fresh1: "newId e2 \<notin> t_id ` set (tests ?s1)"
    using fresh by (auto simp: created_def)
  have second: "snd (addTestForPatient e2 ?s1 (Oid p) (bloodPressure ''110/70''))
                  = \<lparr>patients = setFlag False p (patients ?s1),
                     tests = tests ?s1 @ [created e2 p ''Blood Pressure'' ''110/70'']\<rparr>"
    using addTest_newest [OF bp _ fresh1 older1, of "''110/70''"] not_critical_110_70 [of e2 p]
    by (simp add: bloodPressure_def)
  obtain c where c: "flagOf s p = Some c"
    using flagOf_present [OF present] by blast
  have one: "flagOf ?s1 p = Some True"
    using c flagOf_after_setFlag [of ?s1 True p s] by simp
  have "flagOf \<lparr>patients = setFlag False p (patients ?s1),
                     tests = tests ?s1 @ [created e2 p ''Blood Pressure'' ''110/70'']\<rparr> p = Some False"
    using one flagOf_after_setFlag [of _ False p ?s1] by simp
  with one show ?thesis
    by (simp add: first second)
qed

lemma ward_insert:
  "addTestForPatient \<lparr>now = 2000, newId = 1\<rparr> ward (Oid 1)
     \<lparr>b_patientId = bp, b_date = bd, b_type = Given ''Blood Pressure'', b_value = Given ''200/70''\<rparr>
     = (Response 201 (TestBody bp2000), criticalWard)"
proof -
  have bp: "''Blood Pressure'' \<in> set testTypes"
    by (simp add: testTypes_def)
  have "addTestForPatient \<lparr>now = 2000, newId = 1\<rparr> ward (Oid 1)
          \<lparr>b_patientId = bp, b_date = bd, b_type = Given ''Blood Pressure'', b_value = Given ''200/70''\<rparr>
          = (Response 201 (TestBody (created \<lparr>now = 2000, newId = 1\<rparr> 1 ''Blood Pressure'' ''200/70'')),
             \<lparr>patients = setFlag (isCritical (created \<lparr>now = 2000, newId = 1\<rparr> 1 ''Blood Pressure'' ''200/70'')) 1 (patients ward),
              tests = tests ward @ [created \<lparr>now = 2000, newId = 1\<rparr> 1 ''Blood Pressure'' ''200/70'']\<rparr>)"
    by (rule addTest_newest [OF bp]) (simp_all add: ward_def)
  then show ?thesis
    using critical_200_70 [of "\<lparr>now = 2000, newId = 1\<rparr>" 1]
    by (simp add: created_def ward_def setFlag_def ann_def bp2000_def criticalWard_def criticalAnn_def)
qed

lemma redated_store: "serve emptyStore redated = futureWard"
proof -
  have one: "router \<lparr>now = 1000, newId = 1\<rparr> emptyStore (POST_patients annBody) = (Response 201 (PatientBody ann), ward)"
    by code_simp
  have hb: "''Heartbeat Rate'' \<in> set testTypes"
    by (simp add: testTypes_def)
  have "addTestForPatient \<lparr>now = 2000, newId = 1\<rparr> ward (Oid 1) (heartbeat ''70'')
          = (Response 201 (TestBody (created \<lparr>now = 2000, newId = 1\<rparr> 1 ''Heartbeat Rate'' ''70'')),
             \<lparr>patients = setFlag (isCritical (created \<lparr>now = 2000, newId = 1\<rparr> 1 ''Heartbeat Rate'' ''70'')) 1 (patients ward),
              tests = tests ward @ [created \<lparr>now = 2000, newId = 1\<rparr> 1 ''Heartbeat Rate'' ''70'']\<rparr>)"
    unfolding heartbeat_def by (rule addTest_newest [OF hb]) (simp_all add: ward_def)
  then have two: "snd (router \<lparr>now = 2000, newId = 1\<rparr> ward (POST_tests (Oid 1) (heartbeat ''70'')))
          = \<lparr>patients = [ann], tests = [\<lparr>t_id = 1, patientId = 1, date = 2000, t_type = ''Heartbeat Rate'', t_value = ''70''\<rparr>]\<rparr>"
    using not_critical_70 by (simp add: created_def ward_def setFlag_def ann_def)
  have three: "snd (router \<lparr>now = 3000, newId = 2\<rparr>
                  \<lparr>patients = [ann], tests = [\<lparr>t_id = 1, patientId = 1, date = 2000, t_type = ''Heartbeat Rate'', t_value = ''70''\<rparr>]\<rparr>
                  (PUT_test (Oid 1) (Oid 1) (redate 9000))) = futureWard"
    by code_simp
  show ?thesis
    unfolding redated_def serve.simps one two three snd_conv ..
qed

lemma futureWard_insert:
  "addTestForPatient \<lparr>now = 4000, newId = 2\<rparr> futureWard (Oid 1) (bloodPressure ''200/70'')
     = (Response 201 (TestBody bp4000), \<lparr>patients = [ann], tests = [future70, bp4000]\<rparr>)"
proof -
  have bp: "''Blood Pressure'' \<in> set testTypes"
    by (simp add: testTypes_def)
  have latest: "recentTests (futureWard\<lparr>tests := tests futureWard @ [created \<lparr>now = 4000, newId = 2\<rparr> 1 ''Blood Pressure'' ''200/70'']\<rparr>) 1 = [future70]"
    by code_simp
  have "addTestForPatient \<lparr>now = 4000, newId = 2\<rparr> futureWard (Oid 1) (bloodPressure ''200/70'')
          = (Response 201 (TestBody (created \<lparr>now = 4000, newId = 2\<rparr> 1 ''Blood Pressure'' ''200/70'')),
             \<lparr>patients = setFlag (isCritical future70) 1 (patients futureWard),
              tests = tests futureWard @ [created \<lparr>now = 4000, newId = 2\<rparr> 1 ''Blood Pressure'' ''200/70'']\<rparr>)"
    unfolding bloodPressure_def
    by (rule addTest_valid [OF bp _ _ latest]) (simp_all add: futureWard_def future70_def)
  moreover have "\<not> isCritical future70"
    unfolding future70_def by (rule not_critical_70)
  ultimately show ?thesis
    by (simp add: created_def futureWard_def setFlag_def ann_def bp4000_def)
qed

text \<open>
  C2, as the code has it. A creation request whose type is one of the four listed types
  and whose value is a non-empty string, met with an unused id, persists a new test for
  the patient of the path and then sets that patient's flag to the classification of the
  patient's latest test by date; the latest test is the new one when every test already
  stored for the patient is dated before the insertion time. Any other type or an empty
  value is rejected with status 400 and nothing is persisted. In particular, for a stored
  patient whose tests are all dated before the insertion time, a Blood Pressure test
  \<^verbatim>\<open>200/70\<close> sets the flag to true and a \<^verbatim>\<open>110/70\<close> test inserted at a later time sets it
  back to false.
\<close>

theorem addTest_sets_flag_from_latest:
  "(ty \<in> set testTypes \<and> v \<noteq> [] \<and> newId e \<notin> t_id ` set (tests s) \<longrightarrow>
      (\<exists>latest.
         addTestForPatient e s (Oid p) \<lparr>b_patientId = bp, b_date = bd, b_type = Given ty, b_value = Given v\<rparr>
           = (Response 201 (TestBody (created e p ty v)),
              \<lparr>patients = setFlag (isCritical latest) p (patients s),
               tests = tests s @ [created e p ty v]\<rparr>)
         \<and> latest \<in> set (tests s @ [created e p ty v]) \<and> patientId latest = p
         \<and> (\<forall>u \<in> set (tests s @ [created e p ty v]). patientId u = p \<longrightarrow> date u \<le> date latest)
         \<and> ((\<forall>u \<in> set (tests s). patientId u = p \<longrightarrow> date u < now e) \<longrightarrow> latest = created e p ty v)))
   \<and> (ty \<notin> set testTypes \<or> v = [] \<longrightarrow>
        addTestForPatient e s (Oid p) \<lparr>b_patientId = bp, b_date = bd, b_type = Given ty, b_value = Given v\<rparr>
          = (Response 400 (ErrorBody ValidationError), s))
   \<and> ((\<forall>u \<in> set (tests s). patientId u = p \<longrightarrow> date u < now e) \<and> now e < now e'
        \<and> newId e \<notin> t_id ` set (tests s) \<and> newId e' \<notin> t_id ` set (tests s) \<and> newId e' \<noteq> newId e
        \<and> p \<in> p_id ` set (patients s) \<longrightarrow>
        flagOf (snd (addTestForPatient e s (Oid p) (bloodPressure ''200/70''))) p = Some True
        \<and> flagOf (snd (addTestForPatient e' (snd (addTestForPatient e s (Oid p) (bloodPressure ''200/70'')))
                         (Oid p) (bloodPressure ''110/70''))) p = Some False)"
proof (intro conjI impI)
  assume valid: "ty \<in> set testTypes \<and> v \<noteq> [] \<and> newId e \<notin> t_id ` set (tests s)"
  let ?t = "created e p ty v"
  let ?s = "s\<lparr>tests := tests s @ [?t]\<rparr>"
  obtain latest where latest: "recentTests ?s p = [latest]"
    using recentTests_append_new by blast
  have "addTestForPatient e s (Oid p) \<lparr>b_patientId = bp, b_date = bd, b_type = Given ty, b_value = Given v\<rparr>
           = (Response 201 (TestBody ?t),
              \<lparr>patients = setFlag (isCritical latest) p (patients s), tests = tests s @ [?t]\<rparr>)"
    using valid addTest_valid [OF _ _ _ latest] by blast
  moreover have "latest \<in> set (tests s @ [?t]) \<and> patientId latest = p
         \<and> (\<forall>u \<in> set (tests s @ [?t]). patientId u = p \<longrightarrow> date u \<le> date latest)"
    using recentTests_latest [OF latest] by simp
  moreover have "(\<forall>u \<in> set (tests s). patientId u = p \<longrightarrow> date u < now e) \<longrightarrow> latest = ?t"
    using recentTests_new_is_latest [of s p e ty v] latest by auto
  ultimately show "\<exists>latest.
         addTestForPatient e s (Oid p) \<lparr>b_patientId = bp, b_date = bd, b_type = Given ty, b_value = Given v\<rparr>
           = (Response 201 (TestBody ?t),
              \<lparr>patients = setFlag (isCritical latest) p (patients s), tests = tests s @ [?t]\<rparr>)
         \<and> latest \<in> set (tests s @ [?t]) \<and> patientId latest = p
         \<and> (\<forall>u \<in> set (tests s @ [?t]). patientId u = p \<longrightarrow> date u \<le> date latest)
         \<and> ((\<forall>u \<in> set (tests s). patientId u = p \<longrightarrow> date u < now e) \<longrightarrow> latest = ?t)"
    by blast
next
  assume "ty \<notin> set testTypes \<or> v = []"
  then show "addTestForPatient e s (Oid p) \<lparr>b_patientId = bp, b_date = bd, b_type = Given ty, b_value = Given v\<rparr>
          = (Response 400 (ErrorBody ValidationError), s)"
    by (rule addTest_rejected)
next
  assume h: "(\<forall>u \<in> set (tests s). patientId u = p \<longrightarrow> date u < now e) \<and> now e < now e'
        \<and> newId e \<notin> t_id ` set (tests s) \<and> newId e' \<notin> t_id ` set (tests s) \<and> newId e' \<noteq> newId e
        \<and> p \<in> p_id ` set (patients s)"
  then have "flagOf (snd (addTestForPatient e s (Oid p) (bloodPressure ''200/70''))) p = Some True
        \<and> flagOf (snd (addTestForPatient e' (snd (addTestForPatient e s (Oid p) (bloodPressure ''200/70'')))
                         (Oid p) (bloodPressure ''110/70''))) p = Some False"
    by (intro blood_pressure_example) simp_all
  then show "flagOf (snd (addTestForPatient e s (Oid p) (bloodPressure ''200/70''))) p = Some True"
    and "flagOf (snd (addTestForPatient e' (snd (addTestForPatient e s (Oid p) (bloodPressure ''200/70'')))
                         (Oid p) (bloodPressure ''110/70''))) p = Some False"
    by simp_all
qed

text \<open>On a ward with one patient and no tests: both insertions, and a rejected request.\<close>

theorem addTest_sets_flag_from_latest_witness:
  "''Blood Pressure'' \<in> set testTypes \<and> ''200/70'' \<noteq> []
   \<and> tests ward = [] \<and> 1 \<in> p_id ` set (patients ward) \<and> flagOf ward 1 = Some False
   \<and> addTestForPatient \<lparr>now = 2000, newId = 1\<rparr> ward (Oid 1) (bloodPressure ''200/70'')
       = (Response 201 (TestBody bp2000), criticalWard)
   \<and> flagOf criticalWard 1 = Some True
   \<and> flagOf (snd (addTestForPatient \<lparr>now = 3000, newId = 2\<rparr> criticalWard (Oid 1) (bloodPressure ''110/70''))) 1
       = Some False
   \<and> ''Heart Rate'' \<notin> set testTypes
   \<and> addTestForPatient \<lparr>now = 2000, newId = 1\<rparr> ward (Oid 1)
        \<lparr>b_patientId = Missing, b_date = Missing, b_type = Given ''Heart Rate'', b_value = Given ''72''\<rparr>
       = (Response 400 (ErrorBody ValidationError), ward)"
proof -
  have types: "''Blood Pressure'' \<in> set testTypes" "''Heart Rate'' \<notin> set testTypes"
    by (simp_all add: testTypes_def)
  have empty: "tests ward = []" and present: "1 \<in> p_id ` set (patients ward)"
    by (simp_all add: ward_def ann_def)
  have before: "flagOf ward 1 = Some False"
    by code_simp
  have first: "addTestForPatient \<lparr>now = 2000, newId = 1\<rparr> ward (Oid 1) (bloodPressure ''200/70'')
       = (Response 201 (TestBody bp2000), criticalWard)"
    unfolding bloodPressure_def by (rule ward_insert)
  show ?thesis
    using addTest_sets_flag_from_latest
      [where ty = "''Blood Pressure''" and v = "''200/70''" and e = "\<lparr>now = 2000, newId = 1\<rparr>"
         and s = ward and p = 1 and e' = "\<lparr>now = 3000, newId = 2\<rparr>" and bp = Missing and bd = Missing]
      addTest_sets_flag_from_latest
      [where ty = "''Heart Rate''" and v = "''72''" and e = "\<lparr>now = 2000, newId = 1\<rparr>" and s = ward
         and p = 1 and e' = "\<lparr>now = 3000, newId = 2\<rparr>" and bp = Missing and bd = Missing]
      types empty present before first
    by simp
qed

text \<open>
  C2 as stated fails twice on a store that three requests reach from the empty one, in
  which the patient has a heartbeat reading dated after the clock: inserting the Blood
  Pressure test \<^verbatim>\<open>200/70\<close> leaves the flag false, and a request of type \<^verbatim>\<open>Heart Rate\<close>
  persists nothing.
\<close>

theorem insert_not_latest_counterexample:
  "serve emptyStore redated = futureWard
   \<and> flagOf futureWard 1 = Some False
   \<and> addTestForPatient \<lparr>now = 4000, newId = 2\<rparr> futureWard (Oid 1) (bloodPressure ''200/70'')
       = (Response 201 (TestBody bp4000), \<lparr>patients = [ann], tests = [future70, bp4000]\<rparr>)
   \<and> flagOf \<lparr>patients = [ann], tests = [future70, bp4000]\<rparr> 1 = Some False
   \<and> addTestForPatient \<lparr>now = 4000, newId = 2\<rparr> futureWard (Oid 1)
        \<lparr>b_patientId = Missing, b_date = Missing, b_type = Given ''Heart Rate'', b_value = Given ''72''\<rparr>
       = (Response 400 (ErrorBody ValidationError), futureWard)"
proof (intro conjI)
  show "flagOf futureWard 1 = Some False"
    and "flagOf \<lparr>patients = [ann], tests = [future70, bp4000]\<rparr> 1 = Some False"
    by code_simp+
  show "addTestForPatient \<lparr>now = 4000, newId = 2\<rparr> futureWard (Oid 1)
        \<lparr>b_patientId = Missing, b_date = Missing, b_type = Given ''Heart Rate'', b_value = Given ''72''\<rparr>
       = (Response 400 (ErrorBody ValidationError), futureWard)"
    by code_simp
qed (rule redated_store futureWard_insert)+

text \<open>
  C10, as the code has it. The handler reads the path id and the type and value of the
  body: a date or patientId in the body changes nothing. The stored test carries the
  generated id, the path id as patientId and the insertion time as date, and is appended
  to the collection. It is the patient's latest test at recomputation time when every
  test already stored for that patient is dated before the insertion time.
\<close>

theorem addTest_reads_type_and_value:
  "addTestForPatient e s id' (b\<lparr>b_patientId := bp, b_date := bd\<rparr>) = addTestForPatient e s id' b
   \<and> (addTestForPatient e s id' b = (Response 201 (TestBody t), s') \<longrightarrow>
        id' = Oid (patientId t) \<and> t_id t = newId e \<and> date t = now e
        \<and> b_type b = Given (t_type t) \<and> b_value b = Given (t_value t)
        \<and> tests s' = tests s @ [t]
        \<and> ((\<forall>u \<in> set (tests s). patientId u = patientId t \<longrightarrow> date u < now e) \<longrightarrow>
             recentTests s' (patientId t) = [t]))"
proof (intro conjI impI)
  show "addTestForPatient e s id' (b\<lparr>b_patientId := bp, b_date := bd\<rparr>) = addTestForPatient e s id' b"
    by (simp add: addTestForPatient_def)
next
  assume ok: "addTestForPatient e s id' b = (Response 201 (TestBody t), s')"
  then obtain t' where new: "newTest e id' (b_type b) (b_value b) = Inr t'"
    by (auto simp: addTestForPatient_def split: sum.splits)
  with ok obtain ts where ins: "insertOne t_id (tests s) t' = Inr ts"
    by (auto simp: addTestForPatient_def split: sum.splits)
  with ok new have upd: "updatePatientCriticalCondition (s\<lparr>tests := ts\<rparr>) id' = Inr s'" and t: "t' = t"
    by (auto simp: addTestForPatient_def split: sum.splits)
  from ins have ts: "ts = tests s @ [t]"
    by (auto simp: insertOne_def t split: if_splits)
  from newTest_InrD [OF new] obtain p ty v where
    shape: "id' = Oid p" "b_type b = Given ty" "b_value b = Given v" "t = created e p ty v"
    by (auto simp: t)
  show "id' = Oid (patientId t)" "t_id t = newId e" "date t = now e"
    "b_type b = Given (t_type t)" "b_value b = Given (t_value t)"
    using shape by (simp_all add: created_def)
  show tests: "tests s' = tests s @ [t]"
    using updatePatientCriticalCondition_tests [OF upd] ts by simp
  assume older: "\<forall>u \<in> set (tests s). patientId u = patientId t \<longrightarrow> date u < now e"
  show "recentTests s' (patientId t) = [t]"
    by (rule recentTests_newest) (use older tests shape in \<open>auto simp: created_def\<close>)
qed

text \<open>On a ward with no tests, with and without a date and patientId in the body.\<close>

theorem addTest_reads_type_and_value_witness:
  "addTestForPatient \<lparr>now = 2000, newId = 1\<rparr> ward (Oid 1) (bloodPressure ''200/70'')
     = (Response 201 (TestBody bp2000), criticalWard)
   \<and> addTestForPatient \<lparr>now = 2000, newId = 1\<rparr> ward (Oid 1)
        ((bloodPressure ''200/70'')\<lparr>b_patientId := Given 9, b_date := Given 5\<rparr>)
     = (Response 201 (TestBody bp2000), criticalWard)
   \<and> tests ward = []
   \<and> patientId bp2000 = 1 \<and> date bp2000 = 2000
   \<and> tests criticalWard = tests ward @ [bp2000]
   \<and> recentTests criticalWard 1 = [bp2000]"
proof -
  have first: "addTestForPatient \<lparr>now = 2000, newId = 1\<rparr> ward (Oid 1) (bloodPressure ''200/70'')
       = (Response 201 (TestBody bp2000), criticalWard)"
    unfolding bloodPressure_def by (rule ward_insert)
  have empty: "tests ward = []"
    by (simp add: ward_def)
  have fields: "patientId bp2000 = 1" "date bp2000 = 2000"
    by (simp_all add: bp2000_def)
  show ?thesis
    using addTest_reads_type_and_value
      [where e = "\<lparr>now = 2000, newId = 1\<rparr>" and s = ward and id' = "Oid 1"
         and b = "bloodPressure ''200/70''" and bp = "Given 9" and bd = "Given 5"
         and t = bp2000 and s' = criticalWard]
      first empty fields
    by simp
qed

text \<open>
  C10 as stated makes the inserted test the latest one always. On the store with the
  reading dated after the clock, the latest test after the insertion is still that
  reading.
\<close>

theorem inserted_not_most_recent_counterexample:
  "serve emptyStore redated = futureWard
   \<and> addTestForPatient \<lparr>now = 4000, newId = 2\<rparr> futureWard (Oid 1) (bloodPressure ''200/70'')
       = (Response 201 (TestBody bp4000), \<lparr>patients = [ann], tests = [future70, bp4000]\<rparr>)
   \<and> recentTests \<lparr>patients = [ann], tests = [future70, bp4000]\<rparr> 1 = [future70]
   \<and> future70 \<noteq> bp4000"
proof (intro conjI)
  show "recentTests \<lparr>patients = [ann], tests = [future70, bp4000]\<rparr> 1 = [future70]"
    and "future70 \<noteq> bp4000"
    by code_simp+
qed (rule redated_store futureWard_insert)+

section \<open>Updating and deleting a test\<close>

lemma castTestUpdate_keeps_id: "castTestUpdate b = Inr f \<Longrightarrow> t_id (f t) = t_id t"
  by (auto simp: castTestUpdate_def split: if_splits)

lemma updateTest_patients: "patients (snd (updateTest s testId b)) = patients s"
  by (simp add: updateTest_def findByIdAndUpdate_def split: idparam.splits sum.splits option.splits)

lemma deleteTest_patients: "patients (snd (deleteTest s testId)) = patients s"
  by (simp add: deleteTest_def findByIdAndDelete_def split: idparam.splits option.splits)

lemma updateTest_others:
  "filter (\<lambda>t. t_id t \<noteq> i) (tests (snd (updateTest s (Oid i) b))) = filter (\<lambda>t. t_id t \<noteq> i) (tests s)"
  by (auto simp: updateTest_def findByIdAndUpdate_def filter_updateOne castTestUpdate_keeps_id
      split: sum.splits option.splits)

lemma deleteTest_others:
  "filter (\<lambda>t. t_id t \<noteq> i) (tests (snd (deleteTest s (Oid i)))) = filter (\<lambda>t. t_id t \<noteq> i) (tests s)"
  by (auto simp: deleteTest_def findByIdAndDelete_def filter_deleteOne split: option.splits)

lemma deleteTest_found:
  "findById t_id (tests s) i = Some t \<Longrightarrow>
     deleteTest s (Oid i) =
       (Response 200 (MessageBody ''Test deleted successfully''), s\<lparr>tests := remove1 t (tests s)\<rparr>)"
  by (simp add: deleteTest_def findByIdAndDelete_def deleteOne_remove1)

lemma updateTest_found:
  "findById t_id (tests s) i = Some t \<Longrightarrow> castTestUpdate b = Inr f \<Longrightarrow>
     updateTest s (Oid i) b = (Response 200 (TestBody (f t)), s\<lparr>tests := updateOne t_id f (tests s) i\<rparr>)"
  by (simp add: updateTest_def findByIdAndUpdate_def)

text \<open>
  C3. Updating or deleting a test leaves the patient collection as it was, so every
  patient keeps its flag, and every test with another id stays as it was and where it
  was. An update keeps the number of tests and, when the payload is accepted, replaces
  the stored record by the merged one; deleting a stored test removes that one record.
\<close>

theorem test_update_delete_frame:
  "patients (snd (updateTest s testId b)) = patients s
   \<and> patients (snd (deleteTest s testId)) = patients s
   \<and> flagOf (snd (updateTest s testId b)) p = flagOf s p
   \<and> flagOf (snd (deleteTest s testId)) p = flagOf s p
   \<and> filter (\<lambda>t. t_id t \<noteq> i) (tests (snd (updateTest s (Oid i) b))) = filter (\<lambda>t. t_id t \<noteq> i) (tests s)
   \<and> filter (\<lambda>t. t_id t \<noteq> i) (tests (snd (deleteTest s (Oid i)))) = filter (\<lambda>t. t_id t \<noteq> i) (tests s)
   \<and> length (tests (snd (updateTest s testId b))) = length (tests s)
   \<and> (findById t_id (tests s) i = Some t \<longrightarrow>
        deleteTest s (Oid i) =
          (Response 200 (MessageBody ''Test deleted successfully''), s\<lparr>tests := remove1 t (tests s)\<rparr>))
   \<and> (findById t_id (tests s) i = Some t \<and> castTestUpdate b = Inr f \<longrightarrow>
        updateTest s (Oid i) b =
          (Response 200 (TestBody (f t)), s\<lparr>tests := updateOne t_id f (tests s) i\<rparr>))"
proof -
  have "length (tests (snd (updateTest s testId b))) = length (tests s)"
    by (simp add: updateTest_def findByIdAndUpdate_def length_updateOne
        split: idparam.splits sum.splits option.splits)
  then show ?thesis
    by (simp add: updateTest_patients deleteTest_patients flagOf_def updateTest_others
        deleteTest_others deleteTest_found updateTest_found)
qed

text \<open>Deleting the critical reading of a patient leaves the patient flagged.\<close>

theorem test_update_delete_frame_witness:
  "findById t_id (tests criticalWard) 1 = Some bp2000
   \<and> deleteTest criticalWard (Oid 1)
       = (Response 200 (MessageBody ''Test deleted successfully''), \<lparr>patients = [criticalAnn], tests = []\<rparr>)
   \<and> flagOf (snd (deleteTest criticalWard (Oid 1))) 1 = Some True
   \<and> updateTest criticalWard (Oid 1) (redate 9000)
       = (Response 200 (TestBody (bp2000\<lparr>date := 9000\<rparr>)),
          \<lparr>patients = [criticalAnn], tests = [bp2000\<lparr>date := 9000\<rparr>]\<rparr>)
   \<and> patients (snd (updateTest criticalWard (Oid 1) (redate 9000))) = [criticalAnn]"
proof (intro conjI)
  note frame = test_update_delete_frame
      [where s = criticalWard and testId = "Oid 1" and b = "redate 9000" and p = 1 and i = 1 and t = bp2000]
  show found: "findById t_id (tests criticalWard) 1 = Some bp2000"
    by code_simp
  have "criticalWard\<lparr>tests := remove1 bp2000 (tests criticalWard)\<rparr> = \<lparr>patients = [criticalAnn], tests = []\<rparr>"
    by (simp add: criticalWard_def)
  with frame found show "deleteTest criticalWard (Oid 1)
       = (Response 200 (MessageBody ''Test deleted successfully''), \<lparr>patients = [criticalAnn], tests = []\<rparr>)"
    by metis
  have "flagOf criticalWard 1 = Some True"
    by code_simp
  with frame show "flagOf (snd (deleteTest criticalWard (Oid 1))) 1 = Some True"
    by metis
  show "updateTest criticalWard (Oid 1) (redate 9000)
       = (Response 200 (TestBody (bp2000\<lparr>date := 9000\<rparr>)),
          \<lparr>patients = [criticalAnn], tests = [bp2000\<lparr>date := 9000\<rparr>]\<rparr>)"
    by code_simp
  have "patients criticalWard = [criticalAnn]"
    by (simp add: criticalWard_def)
  with frame show "patients (snd (updateTest criticalWard (Oid 1) (redate 9000))) = [criticalAnn]"
    by metis
qed

section \<open>Listing the tests of a patient\<close>







section \<open>Patients by id\<close>

text \<open>
  C7, as the code has it. For an id that no stored patient has, reading and deleting
  answer 404 and leave the store as it was; updating leaves the store as it was and answers
  404 when the payload passes casting and validation, and 400 otherwise. For an id that
  is present, reading answers with that patient's record.
\<close>

theorem absent_patient_not_found:
  assumes "i \<notin> p_id ` set (patients s)"
  shows "router e s (GET_patient (Oid i)) = (Response 404 (MessageBody ''Patient not found''), s)
         \<and> router e s (DELETE_patient (Oid i)) = (Response 404 (MessageBody ''Patient not found''), s)
         \<and> (payloadAccepted b \<longrightarrow>
              router e s (PUT_patient (Oid i) b) = (Response 404 (MessageBody ''Patient not found''), s))
         \<and> (\<not> payloadAccepted b \<longrightarrow>
              (\<exists>err. router e s (PUT_patient (Oid i) b) = (Response 400 (ErrorBody err), s)))
         \<and> (findById p_id (patients s) j = Some q \<longrightarrow>
              router e s (GET_patient (Oid j)) = (Response 200 (PatientBody q), s))"
proof -
  have "findById p_id (patients s) i = None"
    using assms by (simp add: findById_None_iff)
  then show ?thesis
    by (auto simp: getPatientById_def deletePatient_def updatePatient_def payloadAccepted_def
        findByIdAndDelete_def findByIdAndUpdate_def split: sum.splits)
qed

text \<open>A ward with patient 1, asked about patient 2.\<close>

theorem absent_patient_not_found_witness:
  "2 \<notin> p_id ` set (patients ward)
   \<and> payloadAccepted annBody
   \<and> findById p_id (patients ward) 1 = Some ann
   \<and> router \<lparr>now = 2000, newId = 2\<rparr> ward (GET_patient (Oid 2)) = (Response 404 (MessageBody ''Patient not found''), ward)
   \<and> router \<lparr>now = 2000, newId = 2\<rparr> ward (DELETE_patient (Oid 2)) = (Response 404 (MessageBody ''Patient not found''), ward)
   \<and> router \<lparr>now = 2000, newId = 2\<rparr> ward (PUT_patient (Oid 2) annBody) = (Response 404 (MessageBody ''Patient not found''), ward)
   \<and> router \<lparr>now = 2000, newId = 2\<rparr> ward (GET_patient (Oid 1)) = (Response 200 (PatientBody ann), ward)"
proof -
  have absent: "2 \<notin> p_id ` set (patients ward)"
    by (simp add: ward_def ann_def)
  have accepted: "payloadAccepted annBody"
    by code_simp
  have present: "findById p_id (patients ward) 1 = Some ann"
    by code_simp
  show ?thesis
    using absent_patient_not_found
      [OF absent, where e = "\<lparr>now = 2000, newId = 2\<rparr>" and b = annBody and j = 1 and q = ann]
      absent accepted present
    by simp
qed

text \<open>
  C7 as stated answers 404 to every update of an absent id. An update whose age cannot
  be cast to a number answers 400.
\<close>

theorem absent_patient_update_counterexample:
  "findById p_id (patients ward) 2 = None
   \<and> updatePatient ward (Oid 2) (annBody\<lparr>b_age := Uncastable\<rparr>) = (Response 400 (ErrorBody CastError), ward)"
  by code_simp

text \<open>
  C8. Deleting a stored patient removes that one record from the patient collection and
  leaves the test collection as it was: the tests of the deleted patient stay stored.
\<close>

theorem deletePatient_leaves_tests:
  assumes "findById p_id (patients s) i = Some q"
  shows "deletePatient s (Oid i) =
           (Response 200 (MessageBody ''Patient deleted successfully''),
            \<lparr>patients = remove1 q (patients s), tests = tests s\<rparr>)
         \<and> q \<in> set (patients s) \<and> p_id q = i
         \<and> mset (patients (snd (deletePatient s (Oid i)))) = mset (patients s) - {#q#}
         \<and> (\<forall>t \<in> set (tests s). patientId t = i \<longrightarrow> t \<in> set (tests (snd (deletePatient s (Oid i)))))"
proof -
  have "deletePatient s (Oid i) =
           (Response 200 (MessageBody ''Patient deleted successfully''),
            \<lparr>patients = remove1 q (patients s), tests = tests s\<rparr>)"
    using assms by (simp add: deletePatient_def findByIdAndDelete_def deleteOne_remove1)
  with findById_SomeD [OF assms] show ?thesis
    by simp
qed

text \<open>The patient is gone, the patient's reading is not.\<close>

theorem deletePatient_leaves_tests_witness:
  "findById p_id (patients futureWard) 1 = Some ann
   \<and> deletePatient futureWard (Oid 1)
       = (Response 200 (MessageBody ''Patient deleted successfully''), \<lparr>patients = [], tests = [future70]\<rparr>)
   \<and> patientId future70 = 1
   \<and> future70 \<in> set (tests (snd (deletePatient futureWard (Oid 1))))"
proof -
  have present: "findById p_id (patients futureWard) 1 = Some ann"
    by code_simp
  have store: "remove1 ann (patients futureWard) = []" "tests futureWard = [future70]" "patientId future70 = 1"
    by (simp_all add: futureWard_def future70_def)
  show ?thesis
    using deletePatient_leaves_tests [OF present] present store
    by simp
qed

section \<open>Stored test types\<close>









end
